theory Spec2Isabelle
  imports Main "HOL-Library.Word"
begin

section \<open>ReliableRouter: data model\<close>

text \<open>
  The embedding follows \<^verbatim>\<open>src/mesh/ReliableRouter.cpp\<close>: its three member functions
  \<^verbatim>\<open>send\<close>, \<^verbatim>\<open>shouldFilterReceived\<close> and \<^verbatim>\<open>sniffReceived\<close>.
  Node numbers, packet ids and millisecond deadlines are 32-bit unsigned integers,
  hop counts and channel indices are 8-bit unsigned integers; \<open>+\<close> and \<open>-\<close> on them wrap
  around as the C++ operators do.
\<close>

type_synonym NodeNum = "32 word"
type_synonym PacketId = "32 word"
type_synonym ChannelIndex = "8 word"
type_synonym msec = "32 word"
type_synonym ErrorCode = int

text \<open>
  The routing error codes the router names, and every other code of the enumeration
  under \<open>Routing_Error_other\<close>.
\<close>

datatype meshtastic_Routing_Error =
    Routing_Error_NONE
  | Routing_Error_NO_CHANNEL
  | Routing_Error_PKI_UNKNOWN_PUBKEY
  | Routing_Error_other nat

text \<open>The tag of the payload union of a packet: decoded, still encrypted, or neither.\<close>

datatype payload_variant =
    MeshPacket_decoded_tag
  | MeshPacket_encrypted_tag
  | MeshPacket_no_payload_tag

record meshtastic_Data =
  request_id :: PacketId

text \<open>
  The fields of a mesh packet that the router reads or writes. The C++ field names
  \<^verbatim>\<open>from\<close>, \<^verbatim>\<open>to\<close> and \<^verbatim>\<open>id\<close> carry a prime here. The field \<open>decoded\<close> is what
  \<^verbatim>\<open>p->decoded\<close> reads, whatever the tag says.
\<close>

record meshtastic_MeshPacket =
  from' :: NodeNum
  to' :: NodeNum
  id' :: PacketId
  channel :: ChannelIndex
  hop_limit :: "8 word"
  hop_start :: "8 word"
  want_ack :: bool
  which_payload_variant :: payload_variant
  decoded :: meshtastic_Data

record meshtastic_Routing =
  error_reason :: meshtastic_Routing_Error

datatype GlobalPacketId = GlobalPacketId (node: NodeNum) (key_id: PacketId)

text \<open>
  Modelled from the spec: the record type of a pending retransmission is declared
  outside this source file. It holds an owned copy of the outbound packet, an absolute
  next-retransmission deadline in milliseconds and a remaining-retry counter.
\<close>

record PendingPacket =
  packet :: meshtastic_MeshPacket
  nextTxMsec :: msec
  numRetransmissions :: "8 word"

record meshtastic_User =
  public_key_size :: nat

record meshtastic_NodeInfoLite =
  user :: meshtastic_User

text \<open>
  Calls that leave the router are recorded in order. \<open>AckNak\<close> is a call of
  \<^verbatim>\<open>sendAckNak(err, to, idFrom, chIndex, hopStart, hopLimit)\<close>, the last two arguments
  absent where the source passes four; \<open>RouterSend\<close> is \<^verbatim>\<open>Router::send\<close>;
  \<open>OurNodeInfo\<close> is \<^verbatim>\<open>nodeInfoModule->sendOurNodeInfo(dest, wantReplies, channel,
  shorterTimeout)\<close>; the others are the calls of the flooding and next-hop strategies.
  What a called function does in turn is outside this source file and is not part of
  the model.
\<close>

datatype action =
    AckNak meshtastic_Routing_Error NodeNum PacketId ChannelIndex "(8 word \<times> 8 word) option"
  | RouterSend meshtastic_MeshPacket
  | FloodSend meshtastic_MeshPacket
  | NextHopSend meshtastic_MeshPacket
  | FloodFilter meshtastic_MeshPacket
  | NextHopFilter meshtastic_MeshPacket
  | FloodSniff meshtastic_MeshPacket "meshtastic_Routing option"
  | NextHopSniff meshtastic_MeshPacket "meshtastic_Routing option"
  | OurNodeInfo NodeNum bool ChannelIndex bool

text \<open>
  Everything the source file reads from outside itself: constants of absent headers,
  configuration, and the answers of the collaborators it calls. \<open>getNodeNum\<close> is the
  router's own \<^verbatim>\<open>getNodeNum()\<close>, \<open>nodeDB_getNodeNum\<close> is \<^verbatim>\<open>nodeDB->getNodeNum()\<close>.
  \<open>millis\<close>, \<open>getRetransmissionMsec\<close> and \<open>NUM_RETRANSMISSIONS\<close> serve
  \<open>startRetransmission\<close> below.
\<close>

record collaborators =
  getNodeNum :: NodeNum
  nodeDB_getNodeNum :: NodeNum
  getFrom :: "meshtastic_MeshPacket \<Rightarrow> NodeNum"
  NODENUM_BROADCAST :: NodeNum
  HOP_RELIABLE :: "8 word"
  config_lora_hop_limit :: "32 word"
  getConfiguredOrDefaultHopLimit :: "32 word \<Rightarrow> 8 word"
  getPacketTime :: "meshtastic_MeshPacket \<Rightarrow> msec"
  wasSeenRecently :: "meshtastic_MeshPacket \<Rightarrow> bool \<Rightarrow> bool"
  getMeshNode :: "NodeNum \<Rightarrow> meshtastic_NodeInfoLite option"
  getPrimaryIndex :: ChannelIndex
  owner_public_key_size :: nat
  FloodingRouter_send :: "meshtastic_MeshPacket \<Rightarrow> ErrorCode"
  NextHopRouter_send :: "meshtastic_MeshPacket \<Rightarrow> ErrorCode"
  FloodingRouter_shouldFilterReceived :: "meshtastic_MeshPacket \<Rightarrow> bool"
  NextHopRouter_shouldFilterReceived :: "meshtastic_MeshPacket \<Rightarrow> bool"
  millis :: msec
  getRetransmissionMsec :: "meshtastic_MeshPacket \<Rightarrow> msec"
  NUM_RETRANSMISSIONS :: "8 word"

text \<open>
  The state the router owns or reads: the pending table, the static pointer
  \<^verbatim>\<open>MeshModule::currentReply\<close> (only tested for null here), and the calls made so far.
\<close>

record router =
  pending :: "GlobalPacketId \<Rightarrow> PendingPacket option"
  currentReply :: "meshtastic_MeshPacket option"
  trace :: "action list"

section \<open>The pending table\<close>

text \<open>
  Modelled from the spec: \<^verbatim>\<open>packetPool.allocCopy\<close> is defined outside this source file.
  It returns an owned copy of the packet.
\<close>

definition allocCopy :: "meshtastic_MeshPacket \<Rightarrow> meshtastic_MeshPacket" where
  "allocCopy p = p"

text \<open>
  Modelled from the spec: \<^verbatim>\<open>startRetransmission\<close> is defined outside this source file.
  It computes the initial retry deadline, now plus an interval derived from the packet,
  starts the retry counter at the configured maximum and inserts the record under the
  packet's GlobalPacketId, whose origin is the logical sender \<^verbatim>\<open>getFrom(p)\<close>.
\<close>

definition startRetransmission ::
  "collaborators \<Rightarrow> router \<Rightarrow> meshtastic_MeshPacket \<Rightarrow> router" where
  "startRetransmission env s p =
     s\<lparr>pending := (pending s)
         (GlobalPacketId (getFrom env p) (id' p) \<mapsto>
            \<lparr>packet = p,
             nextTxMsec = millis env + getRetransmissionMsec env p,
             numRetransmissions = NUM_RETRANSMISSIONS env\<rparr>)\<rparr>"

text \<open>
  Modelled from the spec: \<^verbatim>\<open>findPendingPacket\<close> is defined outside this source file.
  It returns the entry if present, else not found.
\<close>

definition findPendingPacket :: "router \<Rightarrow> GlobalPacketId \<Rightarrow> PendingPacket option" where
  "findPendingPacket s key = pending s key"

text \<open>
  Modelled from the spec: both overloads of \<^verbatim>\<open>stopRetransmission\<close> are defined outside
  this source file. They remove the entry if present and do nothing if it is absent.
\<close>

definition stopRetransmission_key :: "router \<Rightarrow> GlobalPacketId \<Rightarrow> router" where
  "stopRetransmission_key s key = s\<lparr>pending := (pending s)(key := None)\<rparr>"

definition stopRetransmission :: "router \<Rightarrow> NodeNum \<Rightarrow> PacketId \<Rightarrow> router" where
  "stopRetransmission s n i = stopRetransmission_key s (GlobalPacketId n i)"

definition emit :: "action \<Rightarrow> router \<Rightarrow> router" where
  "emit a s = s\<lparr>trace := trace s @ [a]\<rparr>"

section \<open>ReliableRouter::send\<close>

text \<open>
  Lines 17 to 27: a want-ack packet with hop limit zero gets the configured default, then
  a copy of the packet is enrolled. The first component is the caller's packet after the
  write through the pointer.
\<close>

definition send_enroll ::
  "collaborators \<Rightarrow> router \<Rightarrow> meshtastic_MeshPacket \<Rightarrow> meshtastic_MeshPacket \<times> router" where
  "send_enroll env s p =
     (if want_ack p then
        let p1 = (if hop_limit p = 0
                  then p\<lparr>hop_limit := getConfiguredOrDefaultHopLimit env (config_lora_hop_limit env)\<rparr>
                  else p)
        in (p1, startRetransmission env s (allocCopy p1))
      else (p, s))"

text \<open>
  Lines 32 to 36: the loop over the pending table. Each entry whose key has a packet id
  other than the packet's gets the packet's airtime added to its deadline. The updates
  of distinct entries are independent, so the loop is the pointwise update of the table.
\<close>

definition send_addAirtime :: "collaborators \<Rightarrow> meshtastic_MeshPacket \<Rightarrow> router \<Rightarrow> router" where
  "send_addAirtime env p s =
     s\<lparr>pending := (\<lambda>k. case pending s k of
                          None \<Rightarrow> None
                        | Some e \<Rightarrow>
                            if key_id k \<noteq> id' p
                            then Some (e\<lparr>nextTxMsec := nextTxMsec e + getPacketTime env p\<rparr>)
                            else Some e)\<rparr>"

text \<open>Line 38: the strategy is chosen by the destination, and its result is returned.\<close>

definition send_delegate ::
  "collaborators \<Rightarrow> meshtastic_MeshPacket \<Rightarrow> router \<Rightarrow> ErrorCode \<times> router" where
  "send_delegate env p s =
     (if to' p = NODENUM_BROADCAST env
      then (FloodingRouter_send env p, emit (FloodSend p) s)
      else (NextHopRouter_send env p, emit (NextHopSend p) s))"

text \<open>
  The whole function: the returned error code, the caller's packet as the function
  leaves it, and the router afterwards.
\<close>

definition send ::
  "collaborators \<Rightarrow> router \<Rightarrow> meshtastic_MeshPacket \<Rightarrow> ErrorCode \<times> meshtastic_MeshPacket \<times> router" where
  "send env s p =
     (let (p1, s1) = send_enroll env s p;
          s2 = send_addAirtime env p1 s1;
          (r, s3) = send_delegate env p1 s2
      in (r, p1, s3))"

section \<open>ReliableRouter::shouldFilterReceived\<close>

text \<open>
  Lines 44 to 65: a packet whose sender field is this node is one of our own packets
  being rebroadcast. If it is still pending, an acknowledgment without error is generated
  for the original sender and the retransmission is stopped.
\<close>

definition filter_implicitAck :: "collaborators \<Rightarrow> meshtastic_MeshPacket \<Rightarrow> router \<Rightarrow> router" where
  "filter_implicitAck env p s =
     (if from' p = getNodeNum env then
        let key = GlobalPacketId (getFrom env p) (id' p)
        in (case findPendingPacket s key of
              Some old \<Rightarrow>
                stopRetransmission_key
                  (emit (AckNak Routing_Error_NONE (getFrom env p) (id' p) (channel (packet old)) None) s)
                  key
            | None \<Rightarrow> s)
      else s)"

text \<open>Lines 72 to 74: every entry of the table gets the airtime of the received packet.\<close>

definition filter_addAirtime :: "collaborators \<Rightarrow> meshtastic_MeshPacket \<Rightarrow> router \<Rightarrow> router" where
  "filter_addAirtime env p s =
     s\<lparr>pending := (\<lambda>k. case pending s k of
                          None \<Rightarrow> None
                        | Some e \<Rightarrow> Some (e\<lparr>nextTxMsec := nextTxMsec e + getPacketTime env p\<rparr>))\<rparr>"

text \<open>Line 80.\<close>

definition isRepeated :: "collaborators \<Rightarrow> meshtastic_MeshPacket \<Rightarrow> bool" where
  "isRepeated env p =
     (if hop_start p = 0 then hop_limit p = HOP_RELIABLE env else hop_start p = hop_limit p)"

text \<open>
  Lines 81 to 86: a repeated packet that was seen before, has no reply and is not for
  this node is sent again through \<^verbatim>\<open>Router::send\<close>, as a copy with the hop limit
  decremented.
\<close>

definition filter_resend :: "collaborators \<Rightarrow> meshtastic_MeshPacket \<Rightarrow> router \<Rightarrow> router" where
  "filter_resend env p s =
     (if wasSeenRecently env p False \<and> isRepeated env p \<and> currentReply s = None
         \<and> to' p \<noteq> nodeDB_getNodeNum env
      then let tosend = allocCopy p
           in emit (RouterSend (tosend\<lparr>hop_limit := hop_limit tosend - 1\<rparr>)) s
      else s)"

definition filter_delegate ::
  "collaborators \<Rightarrow> meshtastic_MeshPacket \<Rightarrow> router \<Rightarrow> bool \<times> router" where
  "filter_delegate env p s =
     (if to' p = NODENUM_BROADCAST env
      then (FloodingRouter_shouldFilterReceived env p, emit (FloodFilter p) s)
      else (NextHopRouter_shouldFilterReceived env p, emit (NextHopFilter p) s))"

definition shouldFilterReceived ::
  "collaborators \<Rightarrow> router \<Rightarrow> meshtastic_MeshPacket \<Rightarrow> bool \<times> router" where
  "shouldFilterReceived env s p =
     filter_delegate env p
       (filter_resend env p (filter_addAirtime env p (filter_implicitAck env p s)))"

section \<open>ReliableRouter::sniffReceived\<close>

text \<open>Lines 108 to 123: the reply to a packet that wants an acknowledgment.\<close>

definition sniff_wantAck :: "collaborators \<Rightarrow> meshtastic_MeshPacket \<Rightarrow> router \<Rightarrow> router" where
  "sniff_wantAck env p s =
     (if want_ack p then
        if currentReply s \<noteq> None then s
        else if which_payload_variant p = MeshPacket_decoded_tag then
          emit (AckNak Routing_Error_NONE (getFrom env p) (id' p) (channel p)
                  (Some (hop_start p, hop_limit p))) s
        else if which_payload_variant p = MeshPacket_encrypted_tag \<and> channel p = 0
                \<and> (case getMeshNode env (from' p) of
                      None \<Rightarrow> True
                    | Some n \<Rightarrow> public_key_size (user n) = 0) then
          emit (AckNak Routing_Error_PKI_UNKNOWN_PUBKEY (getFrom env p) (id' p)
                  (getPrimaryIndex env) (Some (hop_start p, hop_limit p))) s
        else
          emit (AckNak Routing_Error_NO_CHANNEL (getFrom env p) (id' p)
                  (getPrimaryIndex env) (Some (hop_start p, hop_limit p))) s
      else s)"

text \<open>Lines 124 to 130: a peer reports that it does not know our public key.\<close>

definition sniff_nodeInfo ::
  "collaborators \<Rightarrow> meshtastic_MeshPacket \<Rightarrow> meshtastic_Routing option \<Rightarrow> router \<Rightarrow> router" where
  "sniff_nodeInfo env p c s =
     (if which_payload_variant p = MeshPacket_decoded_tag
         \<and> (case c of None \<Rightarrow> False
                     | Some r \<Rightarrow> error_reason r = Routing_Error_PKI_UNKNOWN_PUBKEY)
      then if owner_public_key_size env = 32
           then emit (OurNodeInfo (from' p) False (channel p) True) s
           else s
      else s)"

text \<open>Lines 132 and 135: the ids an acknowledgment and a negative acknowledgment carry.\<close>

definition ackId :: "meshtastic_MeshPacket \<Rightarrow> meshtastic_Routing option \<Rightarrow> PacketId" where
  "ackId p c =
     (case c of
        None \<Rightarrow> request_id (decoded p)
      | Some r \<Rightarrow> if error_reason r = Routing_Error_NONE then request_id (decoded p) else 0)"

definition nakId :: "meshtastic_MeshPacket \<Rightarrow> meshtastic_Routing option \<Rightarrow> PacketId" where
  "nakId p c =
     (case c of
        None \<Rightarrow> 0
      | Some r \<Rightarrow> if error_reason r \<noteq> Routing_Error_NONE then request_id (decoded p) else 0)"

text \<open>Lines 138 to 146.\<close>

definition sniff_ackNak ::
  "meshtastic_MeshPacket \<Rightarrow> meshtastic_Routing option \<Rightarrow> router \<Rightarrow> router" where
  "sniff_ackNak p c s =
     (if ackId p c \<noteq> 0 \<or> nakId p c \<noteq> 0 then
        if ackId p c \<noteq> 0 then stopRetransmission s (to' p) (ackId p c)
        else stopRetransmission s (to' p) (nakId p c)
      else s)"

definition sniff_delegate ::
  "collaborators \<Rightarrow> meshtastic_MeshPacket \<Rightarrow> meshtastic_Routing option \<Rightarrow> router \<Rightarrow> router" where
  "sniff_delegate env p c s =
     (if to' p = NODENUM_BROADCAST env then emit (FloodSniff p c) s
      else emit (NextHopSniff p c) s)"

definition sniffReceived ::
  "collaborators \<Rightarrow> router \<Rightarrow> meshtastic_MeshPacket \<Rightarrow> meshtastic_Routing option \<Rightarrow> router" where
  "sniffReceived env s p c =
     sniff_delegate env p c
       (if to' p = getNodeNum env
        then sniff_ackNak p c (sniff_nodeInfo env p c (sniff_wantAck env p s))
        else s)"

section \<open>Observations\<close>

text \<open>The three components of what \<open>send\<close> returns.\<close>

definition send_result :: "collaborators \<Rightarrow> router \<Rightarrow> meshtastic_MeshPacket \<Rightarrow> ErrorCode" where
  "send_result env s p = fst (send env s p)"

definition send_packet ::
  "collaborators \<Rightarrow> router \<Rightarrow> meshtastic_MeshPacket \<Rightarrow> meshtastic_MeshPacket" where
  "send_packet env s p = fst (snd (send env s p))"

definition send_router :: "collaborators \<Rightarrow> router \<Rightarrow> meshtastic_MeshPacket \<Rightarrow> router" where
  "send_router env s p = snd (snd (send env s p))"

text \<open>The router as \<open>shouldFilterReceived\<close> leaves it.\<close>

definition filter_router :: "collaborators \<Rightarrow> router \<Rightarrow> meshtastic_MeshPacket \<Rightarrow> router" where
  "filter_router env s p = snd (shouldFilterReceived env s p)"

text \<open>The acknowledgments, relayed packets and node-info advertisements of a trace.\<close>

fun is_AckNak :: "action \<Rightarrow> bool" where
  "is_AckNak (AckNak e n i ch h) = True"
| "is_AckNak a = False"

fun is_RouterSend :: "action \<Rightarrow> bool" where
  "is_RouterSend (RouterSend p) = True"
| "is_RouterSend a = False"

fun is_OurNodeInfo :: "action \<Rightarrow> bool" where
  "is_OurNodeInfo (OurNodeInfo n w ch t) = True"
| "is_OurNodeInfo a = False"

section \<open>Concrete inputs\<close>

text \<open>
  Node 1 with three hops by default, every packet taking 100 ms of airtime and a first
  retransmission 500 ms after the clock value 1000.
\<close>

definition ex_env :: collaborators where
  "ex_env =
     \<lparr>getNodeNum = 1, nodeDB_getNodeNum = 1,
      getFrom = (\<lambda>p. if from' p = 0 then 1 else from' p),
      NODENUM_BROADCAST = 4294967295,
      HOP_RELIABLE = 3,
      config_lora_hop_limit = 0,
      getConfiguredOrDefaultHopLimit = (\<lambda>h. if h = 0 then 3 else ucast h),
      getPacketTime = (\<lambda>p. 100),
      wasSeenRecently = (\<lambda>p u. True),
      getMeshNode = (\<lambda>n. None),
      getPrimaryIndex = 0,
      owner_public_key_size = 32,
      FloodingRouter_send = (\<lambda>p. 0),
      NextHopRouter_send = (\<lambda>p. 32),
      FloodingRouter_shouldFilterReceived = (\<lambda>p. False),
      NextHopRouter_shouldFilterReceived = (\<lambda>p. False),
      millis = 1000,
      getRetransmissionMsec = (\<lambda>p. 500),
      NUM_RETRANSMISSIONS = 3\<rparr>"

text \<open>
  A router with an empty table, and two packets from the phone (sender field zero) that
  want an acknowledgment and leave the hop limit open: a broadcast and a packet for node 9.
\<close>

definition ex_router :: router where
  "ex_router = \<lparr>pending = (\<lambda>k. None), currentReply = None, trace = []\<rparr>"

definition ex_packet :: meshtastic_MeshPacket where
  "ex_packet =
     \<lparr>from' = 0, to' = 4294967295, id' = 7, channel = 0, hop_limit = 0, hop_start = 0,
      want_ack = True, which_payload_variant = MeshPacket_decoded_tag,
      decoded = \<lparr>request_id = 0\<rparr>\<rparr>"

definition ex_unicast :: meshtastic_MeshPacket where
  "ex_unicast =
     \<lparr>from' = 0, to' = 9, id' = 8, channel = 2, hop_limit = 0, hop_start = 0,
      want_ack = True, which_payload_variant = MeshPacket_decoded_tag,
      decoded = \<lparr>request_id = 0\<rparr>\<rparr>"

text \<open>
  Two packets with the same id 7 whose logical senders are the nodes 5 and 6, and the
  router after the first of them was sent.
\<close>

definition ex_packet_a :: meshtastic_MeshPacket where
  "ex_packet_a =
     \<lparr>from' = 5, to' = 9, id' = 7, channel = 0, hop_limit = 3, hop_start = 3,
      want_ack = True, which_payload_variant = MeshPacket_decoded_tag,
      decoded = \<lparr>request_id = 0\<rparr>\<rparr>"



text \<open>
  Node 1 has sent the broadcast 7 and then the unicast 8, both wanting an acknowledgment;
  then it hears a neighbour relay its broadcast 7 with one hop used.
\<close>

definition ex_router_sent :: router where
  "ex_router_sent =
     send_router ex_env (send_router ex_env ex_router ex_packet) ex_unicast"

definition ex_rebroadcast :: meshtastic_MeshPacket where
  "ex_rebroadcast =
     \<lparr>from' = 1, to' = 4294967295, id' = 7, channel = 0, hop_limit = 2, hop_start = 3,
      want_ack = True, which_payload_variant = MeshPacket_encrypted_tag,
      decoded = \<lparr>request_id = 0\<rparr>\<rparr>"

text \<open>
  Packets of node 5 for node 9 that node 1 overhears: one at its original hop count, one
  of a sender that does not set the hop start, on its last hop.
\<close>

definition ex_repeated :: meshtastic_MeshPacket where
  "ex_repeated =
     \<lparr>from' = 5, to' = 9, id' = 12, channel = 0, hop_limit = 3, hop_start = 3,
      want_ack = True, which_payload_variant = MeshPacket_encrypted_tag,
      decoded = \<lparr>request_id = 0\<rparr>\<rparr>"

definition ex_last_hop :: meshtastic_MeshPacket where
  "ex_last_hop = ex_repeated\<lparr>id' := 11, hop_limit := 0, hop_start := 0\<rparr>"

text \<open>
  Packets for node 1 from node 9: a routing packet answering our packet 7, and packets
  that want an acknowledgment, decoded or still encrypted. Node 9 is not in the node
  database of \<open>ex_env\<close>.
\<close>

definition ex_reply :: meshtastic_MeshPacket where
  "ex_reply =
     \<lparr>from' = 9, to' = 1, id' = 50, channel = 0, hop_limit = 3, hop_start = 3,
      want_ack = False, which_payload_variant = MeshPacket_decoded_tag,
      decoded = \<lparr>request_id = 7\<rparr>\<rparr>"

definition ex_nak :: meshtastic_Routing where
  "ex_nak = \<lparr>error_reason = Routing_Error_other 5\<rparr>"

definition ex_pki_nak :: meshtastic_Routing where
  "ex_pki_nak = \<lparr>error_reason = Routing_Error_PKI_UNKNOWN_PUBKEY\<rparr>"

definition ex_wants_ack :: meshtastic_MeshPacket where
  "ex_wants_ack =
     \<lparr>from' = 9, to' = 1, id' = 60, channel = 2, hop_limit = 2, hop_start = 3,
      want_ack = True, which_payload_variant = MeshPacket_decoded_tag,
      decoded = \<lparr>request_id = 0\<rparr>\<rparr>"

definition ex_pki_packet :: meshtastic_MeshPacket where
  "ex_pki_packet =
     ex_wants_ack\<lparr>channel := 0, which_payload_variant := MeshPacket_encrypted_tag\<rparr>"

definition ex_undecodable :: meshtastic_MeshPacket where
  "ex_undecodable =
     ex_wants_ack\<lparr>channel := 5, which_payload_variant := MeshPacket_encrypted_tag\<rparr>"

text \<open>
  The same node with its primary channel at index 3, and a still encrypted packet of
  node 9 that arrives on that channel.
\<close>

definition ex_env_primary :: collaborators where
  "ex_env_primary = ex_env\<lparr>getPrimaryIndex := 3\<rparr>"

definition ex_on_primary :: meshtastic_MeshPacket where
  "ex_on_primary =
     ex_wants_ack\<lparr>channel := 3, which_payload_variant := MeshPacket_encrypted_tag\<rparr>"

section \<open>Properties of send\<close>

lemma send_packet_eq:
  "send_packet env s p =
     (if want_ack p \<and> hop_limit p = 0
      then p\<lparr>hop_limit := getConfiguredOrDefaultHopLimit env (config_lora_hop_limit env)\<rparr>
      else p)"
  by (simp add: send_packet_def send_def send_enroll_def send_delegate_def Let_def split: prod.splits)

lemma send_router_trace:
  "trace (send_router env s p) =
     trace s @ [if to' p = NODENUM_BROADCAST env then FloodSend (send_packet env s p)
                else NextHopSend (send_packet env s p)]"
  by (simp add: send_router_def send_packet_def send_def send_enroll_def send_delegate_def
        send_addAirtime_def startRetransmission_def emit_def Let_def split: prod.splits)

lemma send_result_eq:
  "send_result env s p =
     (if to' p = NODENUM_BROADCAST env then FloodingRouter_send env (send_packet env s p)
      else NextHopRouter_send env (send_packet env s p))"
  by (simp add: send_result_def send_packet_def send_def send_enroll_def send_delegate_def
        Let_def split: prod.splits)

lemma send_router_pending:
  "pending (send_router env s p) =
     pending (send_addAirtime env (send_packet env s p) (snd (send_enroll env s p)))"
  by (simp add: send_router_def send_packet_def send_def send_delegate_def emit_def
        Let_def split: prod.splits)

lemma send_router_pending_own:
  "want_ack p \<Longrightarrow>
   pending (send_router env s p)
     (GlobalPacketId (getFrom env (send_packet env s p)) (id' (send_packet env s p))) =
   Some \<lparr>packet = send_packet env s p,
         nextTxMsec = millis env + getRetransmissionMsec env (send_packet env s p),
         numRetransmissions = NUM_RETRANSMISSIONS env\<rparr>"
  by (simp add: send_router_pending send_packet_eq send_addAirtime_def send_enroll_def
        startRetransmission_def allocCopy_def Let_def)

lemma send_packet_id: "id' (send_packet env s p) = id' p"
  by (simp add: send_packet_eq)

lemma send_packet_to: "to' (send_packet env s p) = to' p"
  by (simp add: send_packet_eq)

text \<open>
  Claim C1. For every packet with \<open>want_ack\<close> set and hop limit zero, \<open>send\<close> rewrites the
  packet's hop limit to the configured default, registers a copy of the packet in the
  pending table under the packet's GlobalPacketId, and then hands the packet to the
  flooding strategy when the destination is the broadcast address and to the next-hop
  strategy otherwise, returning what that strategy returns.
\<close>

theorem send_want_ack_hop_zero:
  assumes "want_ack p" and "hop_limit p = 0"
  shows "send_packet env s p =
           p\<lparr>hop_limit := getConfiguredOrDefaultHopLimit env (config_lora_hop_limit env)\<rparr>
       \<and> pending (send_router env s p)
           (GlobalPacketId (getFrom env (send_packet env s p)) (id' p)) =
           Some \<lparr>packet = send_packet env s p,
                 nextTxMsec = millis env + getRetransmissionMsec env (send_packet env s p),
                 numRetransmissions = NUM_RETRANSMISSIONS env\<rparr>
       \<and> (to' p = NODENUM_BROADCAST env \<longrightarrow>
            trace (send_router env s p) = trace s @ [FloodSend (send_packet env s p)]
            \<and> send_result env s p = FloodingRouter_send env (send_packet env s p))
       \<and> (to' p \<noteq> NODENUM_BROADCAST env \<longrightarrow>
            trace (send_router env s p) = trace s @ [NextHopSend (send_packet env s p)]
            \<and> send_result env s p = NextHopRouter_send env (send_packet env s p))"
proof -
  have a: "send_packet env s p =
             p\<lparr>hop_limit := getConfiguredOrDefaultHopLimit env (config_lora_hop_limit env)\<rparr>"
    using assms by (simp add: send_packet_eq)
  have b: "pending (send_router env s p)
             (GlobalPacketId (getFrom env (send_packet env s p)) (id' p)) =
           Some \<lparr>packet = send_packet env s p,
                 nextTxMsec = millis env + getRetransmissionMsec env (send_packet env s p),
                 numRetransmissions = NUM_RETRANSMISSIONS env\<rparr>"
    using send_router_pending_own [OF assms(1), of env s] by (simp add: send_packet_id)
  show ?thesis
    using a b by (simp add: send_router_trace send_result_eq)
qed

theorem send_want_ack_hop_zero_witness:
  "want_ack ex_packet \<and> hop_limit ex_packet = 0
   \<and> to' ex_packet = NODENUM_BROADCAST ex_env
   \<and> hop_limit (send_packet ex_env ex_router ex_packet) = 3
   \<and> pending (send_router ex_env ex_router ex_packet) (GlobalPacketId 1 7) =
       Some \<lparr>packet = ex_packet\<lparr>hop_limit := 3\<rparr>, nextTxMsec = 1500, numRetransmissions = 3\<rparr>
   \<and> trace (send_router ex_env ex_router ex_packet) = [FloodSend (ex_packet\<lparr>hop_limit := 3\<rparr>)]
   \<and> send_result ex_env ex_router ex_packet = 0"
  using send_want_ack_hop_zero [of ex_packet ex_env ex_router]
  by (clarsimp simp add: ex_env_def ex_packet_def ex_router_def)


text \<open>
  Claim C8. \<open>send\<close> returns the value of the strategy it delegates to, whatever that value
  is, so an error of the strategy is returned unchanged; and when \<open>want_ack\<close> is set, the
  entry created for the packet is in the table afterwards.
\<close>

theorem send_returns_strategy_result:
  "send_result env s p =
     (if to' p = NODENUM_BROADCAST env
      then FloodingRouter_send env (send_packet env s p)
      else NextHopRouter_send env (send_packet env s p))
   \<and> (want_ack p \<longrightarrow>
        pending (send_router env s p)
          (GlobalPacketId (getFrom env (send_packet env s p)) (id' p)) =
        Some \<lparr>packet = send_packet env s p,
              nextTxMsec = millis env + getRetransmissionMsec env (send_packet env s p),
              numRetransmissions = NUM_RETRANSMISSIONS env\<rparr>)"
  using send_router_pending_own [of p env s]
  by (simp add: send_result_eq send_packet_id)

theorem send_returns_strategy_result_witness:
  "to' ex_unicast \<noteq> NODENUM_BROADCAST ex_env
   \<and> want_ack ex_unicast
   \<and> NextHopRouter_send ex_env (send_packet ex_env ex_router ex_unicast) = 32
   \<and> send_result ex_env ex_router ex_unicast = 32
   \<and> pending (send_router ex_env ex_router ex_unicast) (GlobalPacketId 1 8) =
       Some \<lparr>packet = ex_unicast\<lparr>hop_limit := 3\<rparr>, nextTxMsec = 1500, numRetransmissions = 3\<rparr>"
proof -
  have pk: "send_packet ex_env ex_router ex_unicast = ex_unicast\<lparr>hop_limit := 3\<rparr>"
    by (simp add: send_packet_eq ex_unicast_def ex_env_def)
  show ?thesis
    using send_returns_strategy_result [of ex_env ex_router ex_unicast]
    by (simp add: pk) (simp add: ex_unicast_def ex_env_def)
qed

text \<open>
  Claim C10. \<open>send\<close> writes through its argument. For a packet with \<open>want_ack\<close> set and hop
  limit zero, the caller's packet, the copy owned by the table and the packet handed to
  the strategy all carry the configured default hop limit. For every other packet the
  caller's packet is unchanged and is what the strategy receives.
\<close>

theorem send_rewrites_caller_packet:
  "(want_ack p \<and> hop_limit p = 0 \<longrightarrow>
      send_packet env s p =
        p\<lparr>hop_limit := getConfiguredOrDefaultHopLimit env (config_lora_hop_limit env)\<rparr>
      \<and> map_option packet
          (pending (send_router env s p)
             (GlobalPacketId
                (getFrom env
                   (p\<lparr>hop_limit := getConfiguredOrDefaultHopLimit env (config_lora_hop_limit env)\<rparr>))
                (id' p))) =
        Some (p\<lparr>hop_limit := getConfiguredOrDefaultHopLimit env (config_lora_hop_limit env)\<rparr>)
      \<and> trace (send_router env s p) =
        trace s @
          [if to' p = NODENUM_BROADCAST env
           then FloodSend
                  (p\<lparr>hop_limit := getConfiguredOrDefaultHopLimit env (config_lora_hop_limit env)\<rparr>)
           else NextHopSend
                  (p\<lparr>hop_limit := getConfiguredOrDefaultHopLimit env (config_lora_hop_limit env)\<rparr>)])
   \<and> (\<not> (want_ack p \<and> hop_limit p = 0) \<longrightarrow>
        send_packet env s p = p
        \<and> trace (send_router env s p) =
          trace s @ [if to' p = NODENUM_BROADCAST env then FloodSend p else NextHopSend p])"
proof (cases "want_ack p \<and> hop_limit p = 0")
  case True
  then have pk: "send_packet env s p =
        p\<lparr>hop_limit := getConfiguredOrDefaultHopLimit env (config_lora_hop_limit env)\<rparr>"
    by (simp add: send_packet_eq)
  from True have "want_ack p" by simp
  from send_router_pending_own [OF this, of env s]
  have "map_option packet
          (pending (send_router env s p)
             (GlobalPacketId (getFrom env (send_packet env s p)) (id' p))) =
        Some (send_packet env s p)"
    by (simp add: send_packet_id)
  with True pk show ?thesis
    using send_router_trace [of env s p] by simp
next
  case False
  then have "send_packet env s p = p"
    by (auto simp add: send_packet_eq)
  with False show ?thesis
    using send_router_trace [of env s p] by auto
qed

theorem send_rewrites_caller_packet_witness:
  "want_ack ex_packet \<and> hop_limit ex_packet = 0
   \<and> hop_limit (send_packet ex_env ex_router ex_packet) = 3
   \<and> map_option (\<lambda>e. hop_limit (packet e))
       (pending (send_router ex_env ex_router ex_packet) (GlobalPacketId 1 7)) = Some 3
   \<and> trace (send_router ex_env ex_router ex_packet) = [FloodSend (ex_packet\<lparr>hop_limit := 3\<rparr>)]
   \<and> \<not> (want_ack ex_packet_a \<and> hop_limit ex_packet_a = 0)
   \<and> send_packet ex_env ex_router ex_packet_a = ex_packet_a
   \<and> trace (send_router ex_env ex_router ex_packet_a) = [NextHopSend ex_packet_a]"
proof -
  have a: "want_ack ex_packet \<and> hop_limit ex_packet = 0"
    by (simp add: ex_packet_def)
  have b: "\<not> (want_ack ex_packet_a \<and> hop_limit ex_packet_a = 0)"
    by (simp add: ex_packet_a_def)
  have d: "getConfiguredOrDefaultHopLimit ex_env (config_lora_hop_limit ex_env) = 3"
    by (simp add: ex_env_def)
  have k: "GlobalPacketId (getFrom ex_env (ex_packet\<lparr>hop_limit := 3\<rparr>)) (id' ex_packet) =
           GlobalPacketId 1 7"
    by (simp add: ex_env_def ex_packet_def)
  have bc: "to' ex_packet = NODENUM_BROADCAST ex_env" "to' ex_packet_a \<noteq> NODENUM_BROADCAST ex_env"
    by (simp_all add: ex_env_def ex_packet_def ex_packet_a_def)
  have tr: "trace ex_router = []"
    by (simp add: ex_router_def)
  from send_rewrites_caller_packet [of ex_packet ex_env ex_router] a
  have 1: "send_packet ex_env ex_router ex_packet = ex_packet\<lparr>hop_limit := 3\<rparr>"
    and 2: "map_option packet
              (pending (send_router ex_env ex_router ex_packet) (GlobalPacketId 1 7)) =
            Some (ex_packet\<lparr>hop_limit := 3\<rparr>)"
    and 3: "trace (send_router ex_env ex_router ex_packet) = [FloodSend (ex_packet\<lparr>hop_limit := 3\<rparr>)]"
    by (simp_all add: d k bc tr)
  from send_rewrites_caller_packet [of ex_packet_a ex_env ex_router] b
  have 4: "send_packet ex_env ex_router ex_packet_a = ex_packet_a"
    and 5: "trace (send_router ex_env ex_router ex_packet_a) = [NextHopSend ex_packet_a]"
    by (simp_all add: bc tr)
  from 2 have 6: "map_option (\<lambda>e. hop_limit (packet e))
       (pending (send_router ex_env ex_router ex_packet) (GlobalPacketId 1 7)) = Some 3"
    by (cases "pending (send_router ex_env ex_router ex_packet) (GlobalPacketId 1 7)") auto
  show ?thesis
    using a b 1 3 4 5 6 by simp
qed

section \<open>Properties of shouldFilterReceived\<close>

lemma ex_router_sent_pending:
  "pending ex_router_sent (GlobalPacketId 1 7) =
     Some \<lparr>packet = ex_packet\<lparr>hop_limit := 3\<rparr>, nextTxMsec = 1600, numRetransmissions = 3\<rparr>"
  "pending ex_router_sent (GlobalPacketId 1 8) =
     Some \<lparr>packet = ex_unicast\<lparr>hop_limit := 3\<rparr>, nextTxMsec = 1500, numRetransmissions = 3\<rparr>"
  by (simp_all add: ex_router_sent_def send_router_pending send_packet_eq send_addAirtime_def
        send_enroll_def startRetransmission_def allocCopy_def Let_def
        ex_env_def ex_router_def ex_packet_def ex_unicast_def)

lemma ex_router_sent_trace:
  "trace ex_router_sent =
     [FloodSend (ex_packet\<lparr>hop_limit := 3\<rparr>), NextHopSend (ex_unicast\<lparr>hop_limit := 3\<rparr>)]"
  by (simp add: ex_router_sent_def send_router_trace send_packet_eq
        ex_env_def ex_router_def ex_packet_def ex_unicast_def)

lemma ex_router_sent_currentReply: "currentReply ex_router_sent = None"
  by (simp add: ex_router_sent_def send_router_def send_def send_enroll_def send_delegate_def
        send_addAirtime_def startRetransmission_def emit_def Let_def ex_router_def
        split: prod.splits)

lemma filter_implicitAck_found:
  "from' p = getNodeNum env \<Longrightarrow>
   pending s (GlobalPacketId (getFrom env p) (id' p)) = Some old \<Longrightarrow>
   filter_implicitAck env p s =
     s\<lparr>pending := (pending s)(GlobalPacketId (getFrom env p) (id' p) := None),
       trace := trace s @
         [AckNak Routing_Error_NONE (getFrom env p) (id' p) (channel (packet old)) None]\<rparr>"
  by (simp add: filter_implicitAck_def findPendingPacket_def stopRetransmission_key_def
        emit_def Let_def)

lemma filter_implicitAck_absent:
  "pending s (GlobalPacketId (getFrom env p) (id' p)) = None \<Longrightarrow>
   filter_implicitAck env p s = s"
  by (simp add: filter_implicitAck_def findPendingPacket_def Let_def)

lemma filter_implicitAck_foreign:
  "from' p \<noteq> getNodeNum env \<Longrightarrow> filter_implicitAck env p s = s"
  by (simp add: filter_implicitAck_def)

lemma filter_implicitAck_currentReply:
  "currentReply (filter_implicitAck env p s) = currentReply s"
  by (simp add: filter_implicitAck_def findPendingPacket_def stopRetransmission_key_def
        emit_def Let_def split: option.splits)

lemma filter_implicitAck_pending:
  "pending (filter_implicitAck env p s) k =
     (if from' p = getNodeNum env \<and> k = GlobalPacketId (getFrom env p) (id' p)
      then None else pending s k)"
  by (simp add: filter_implicitAck_def findPendingPacket_def stopRetransmission_key_def
        emit_def Let_def split: option.splits)

lemma filter_router_pending:
  "pending (filter_router env s p) k =
     (case pending (filter_implicitAck env p s) k of
        None \<Rightarrow> None
      | Some e \<Rightarrow> Some (e\<lparr>nextTxMsec := nextTxMsec e + getPacketTime env p\<rparr>))"
  by (simp add: filter_router_def shouldFilterReceived_def filter_delegate_def
        filter_resend_def filter_addAirtime_def emit_def allocCopy_def Let_def)

lemma filter_router_trace:
  "trace (filter_router env s p) =
     trace (filter_implicitAck env p s)
     @ (if wasSeenRecently env p False \<and> isRepeated env p \<and> currentReply s = None
           \<and> to' p \<noteq> nodeDB_getNodeNum env
        then [RouterSend (p\<lparr>hop_limit := hop_limit p - 1\<rparr>)] else [])
     @ [if to' p = NODENUM_BROADCAST env then FloodFilter p else NextHopFilter p]"
  using filter_implicitAck_currentReply [of env p s]
  by (auto simp add: filter_router_def shouldFilterReceived_def filter_delegate_def
        filter_resend_def filter_addAirtime_def emit_def allocCopy_def Let_def)

lemma filter_implicitAck_trace_RouterSend:
  "filter is_RouterSend (trace (filter_implicitAck env p s)) = filter is_RouterSend (trace s)"
  by (simp add: filter_implicitAck_def findPendingPacket_def stopRetransmission_key_def
        emit_def Let_def split: option.splits)

text \<open>
  Claim C3. Let the sender field of a received packet be this node's number, and take the
  key made of the packet's logical sender and its id. If the table has an entry under
  that key, the implicit-acknowledgment step generates one acknowledgment without error,
  addressed to the logical sender, for the packet's id and on the channel of the stored
  packet, and removes the entry, which is absent when the function returns. If the table
  has no such entry, the step leaves the router as it was: the table keeps its keys and no
  acknowledgment is generated.
\<close>

theorem filter_self_heard_implicit_ack:
  assumes "from' p = getNodeNum env"
  shows "(pending s (GlobalPacketId (getFrom env p) (id' p)) = Some old \<longrightarrow>
            filter_implicitAck env p s =
              s\<lparr>pending := (pending s)(GlobalPacketId (getFrom env p) (id' p) := None),
                trace := trace s @
                  [AckNak Routing_Error_NONE (getFrom env p) (id' p) (channel (packet old)) None]\<rparr>
            \<and> pending (filter_router env s p) (GlobalPacketId (getFrom env p) (id' p)) = None
            \<and> filter is_AckNak (trace (filter_router env s p)) =
                filter is_AckNak (trace s) @
                  [AckNak Routing_Error_NONE (getFrom env p) (id' p) (channel (packet old)) None])
       \<and> (pending s (GlobalPacketId (getFrom env p) (id' p)) = None \<longrightarrow>
            filter_implicitAck env p s = s
            \<and> dom (pending (filter_router env s p)) = dom (pending s)
            \<and> filter is_AckNak (trace (filter_router env s p)) = filter is_AckNak (trace s))"
proof (intro conjI impI)
  assume f: "pending s (GlobalPacketId (getFrom env p) (id' p)) = Some old"
  show step: "filter_implicitAck env p s =
              s\<lparr>pending := (pending s)(GlobalPacketId (getFrom env p) (id' p) := None),
                trace := trace s @
                  [AckNak Routing_Error_NONE (getFrom env p) (id' p) (channel (packet old)) None]\<rparr>"
    by (rule filter_implicitAck_found [OF assms f])
  show "pending (filter_router env s p) (GlobalPacketId (getFrom env p) (id' p)) = None"
    by (simp add: filter_router_pending filter_implicitAck_pending assms)
  show "filter is_AckNak (trace (filter_router env s p)) =
                filter is_AckNak (trace s) @
                  [AckNak Routing_Error_NONE (getFrom env p) (id' p) (channel (packet old)) None]"
    by (simp add: filter_router_trace step)
next
  assume a: "pending s (GlobalPacketId (getFrom env p) (id' p)) = None"
  show step: "filter_implicitAck env p s = s"
    by (rule filter_implicitAck_absent [OF a])
  show "dom (pending (filter_router env s p)) = dom (pending s)"
    by (auto simp add: filter_router_pending step dom_def split: option.splits)
  show "filter is_AckNak (trace (filter_router env s p)) = filter is_AckNak (trace s)"
    by (simp add: filter_router_trace step)
qed

theorem filter_self_heard_implicit_ack_witness:
  "from' ex_rebroadcast = getNodeNum ex_env
   \<and> pending ex_router_sent (GlobalPacketId 1 7) =
       Some \<lparr>packet = ex_packet\<lparr>hop_limit := 3\<rparr>, nextTxMsec = 1600, numRetransmissions = 3\<rparr>
   \<and> pending (filter_router ex_env ex_router_sent ex_rebroadcast) (GlobalPacketId 1 7) = None
   \<and> filter is_AckNak (trace (filter_router ex_env ex_router_sent ex_rebroadcast)) =
       [AckNak Routing_Error_NONE 1 7 0 None]
   \<and> pending ex_router (GlobalPacketId 1 7) = None
   \<and> filter_implicitAck ex_env ex_rebroadcast ex_router = ex_router
   \<and> filter is_AckNak (trace (filter_router ex_env ex_router ex_rebroadcast)) = []"
proof -
  have a: "from' ex_rebroadcast = getNodeNum ex_env"
    by (simp add: ex_rebroadcast_def ex_env_def)
  have k: "GlobalPacketId (getFrom ex_env ex_rebroadcast) (id' ex_rebroadcast) = GlobalPacketId 1 7"
    by (simp add: ex_rebroadcast_def ex_env_def)
  have n: "pending ex_router (GlobalPacketId 1 7) = None" "trace ex_router = []"
    by (simp_all add: ex_router_def)
  have g: "getFrom ex_env ex_rebroadcast = 1" "id' ex_rebroadcast = 7"
          "channel (ex_packet\<lparr>hop_limit := 3\<rparr>) = 0"
    by (simp_all add: ex_rebroadcast_def ex_env_def ex_packet_def)
  from filter_self_heard_implicit_ack
         [OF a, of ex_router_sent
            "\<lparr>packet = ex_packet\<lparr>hop_limit := 3\<rparr>, nextTxMsec = 1600, numRetransmissions = 3\<rparr>"]
  have 1: "pending (filter_router ex_env ex_router_sent ex_rebroadcast) (GlobalPacketId 1 7) = None"
    and 2: "filter is_AckNak (trace (filter_router ex_env ex_router_sent ex_rebroadcast)) =
       [AckNak Routing_Error_NONE 1 7 0 None]"
    by (simp_all add: k g ex_router_sent_pending ex_router_sent_trace)
  from filter_self_heard_implicit_ack [OF a, of ex_router]
  have 3: "filter_implicitAck ex_env ex_rebroadcast ex_router = ex_router"
    and 4: "filter is_AckNak (trace (filter_router ex_env ex_router ex_rebroadcast)) = []"
    by (simp_all add: k n)
  show ?thesis
    using a 1 2 3 4 n(1) ex_router_sent_pending(1) by simp
qed

lemma filter_router_dom: "dom (pending (filter_router env s p)) \<subseteq> dom (pending s)"
  by (auto simp add: filter_router_pending filter_implicitAck_pending dom_def
        split: option.splits if_splits)

lemma isRepeated_hop_limit:
  "HOP_RELIABLE env \<noteq> 0 \<Longrightarrow> isRepeated env p \<Longrightarrow> hop_limit p \<noteq> 0"
  by (auto simp add: isRepeated_def split: if_splits)

text \<open>
  Claim C5. For every received packet, each entry that is in the table after the
  implicit-acknowledgment step has its deadline pushed forward by exactly the airtime of
  the received packet (a 32-bit sum) when the function returns. In terms of the table
  before the call: each entry other than the one the step cancels.
\<close>

theorem filter_airtime_all_remaining:
  "(pending (filter_implicitAck env p s) k = Some e \<longrightarrow>
      pending (filter_router env s p) k =
        Some (e\<lparr>nextTxMsec := nextTxMsec e + getPacketTime env p\<rparr>))
   \<and> (pending s k = Some e
        \<and> \<not> (from' p = getNodeNum env \<and> k = GlobalPacketId (getFrom env p) (id' p)) \<longrightarrow>
        pending (filter_router env s p) k =
          Some (e\<lparr>nextTxMsec := nextTxMsec e + getPacketTime env p\<rparr>))"
  by (auto simp add: filter_router_pending filter_implicitAck_pending)

theorem filter_airtime_all_remaining_witness:
  "pending ex_router_sent (GlobalPacketId 1 8) =
     Some \<lparr>packet = ex_unicast\<lparr>hop_limit := 3\<rparr>, nextTxMsec = 1500, numRetransmissions = 3\<rparr>
   \<and> GlobalPacketId 1 8 \<noteq> GlobalPacketId (getFrom ex_env ex_rebroadcast) (id' ex_rebroadcast)
   \<and> getPacketTime ex_env ex_rebroadcast = 100
   \<and> pending (filter_router ex_env ex_router_sent ex_rebroadcast) (GlobalPacketId 1 8) =
     Some \<lparr>packet = ex_unicast\<lparr>hop_limit := 3\<rparr>, nextTxMsec = 1600, numRetransmissions = 3\<rparr>"
proof -
  have k: "GlobalPacketId 1 8 \<noteq> GlobalPacketId (getFrom ex_env ex_rebroadcast) (id' ex_rebroadcast)"
    by (simp add: ex_rebroadcast_def ex_env_def)
  have t: "getPacketTime ex_env ex_rebroadcast = 100"
    by (simp add: ex_env_def)
  from filter_airtime_all_remaining
         [of ex_env ex_rebroadcast ex_router_sent "GlobalPacketId 1 8"
             "\<lparr>packet = ex_unicast\<lparr>hop_limit := 3\<rparr>, nextTxMsec = 1500, numRetransmissions = 3\<rparr>"]
  have "pending (filter_router ex_env ex_router_sent ex_rebroadcast) (GlobalPacketId 1 8) =
     Some \<lparr>packet = ex_unicast\<lparr>hop_limit := 3\<rparr>, nextTxMsec = 1600, numRetransmissions = 3\<rparr>"
    using k by (simp add: ex_router_sent_pending t)
  then show ?thesis
    using k t ex_router_sent_pending(2) by simp
qed

text \<open>
  Claim C6, as amended. A received packet is repeated when its hop start is unset (zero)
  and its hop limit is the full default relay budget, or its hop start is set (not zero)
  and equal to its hop limit. If the packet is repeated, was seen recently, no module has a
  reply for it and it is not addressed to this node, exactly one copy of it, with the hop
  limit decremented by one, is handed to \<^verbatim>\<open>Router::send\<close>; otherwise none is. In
  both cases no key is added to the pending table.
\<close>

theorem filter_resend_repeated:
  "filter is_RouterSend (trace (filter_router env s p)) =
     filter is_RouterSend (trace s) @
       (if wasSeenRecently env p False
           \<and> (hop_start p = 0 \<and> hop_limit p = HOP_RELIABLE env
                \<or> hop_start p \<noteq> 0 \<and> hop_start p = hop_limit p)
           \<and> currentReply s = None
           \<and> to' p \<noteq> nodeDB_getNodeNum env
        then [RouterSend (p\<lparr>hop_limit := hop_limit p - 1\<rparr>)]
        else [])
   \<and> dom (pending (filter_router env s p)) \<subseteq> dom (pending s)"
proof -
  have r: "isRepeated env p =
             (hop_start p = 0 \<and> hop_limit p = HOP_RELIABLE env
                \<or> hop_start p \<noteq> 0 \<and> hop_start p = hop_limit p)"
    by (auto simp add: isRepeated_def)
  have "filter is_RouterSend (trace (filter_router env s p)) =
     filter is_RouterSend (trace s) @
       (if wasSeenRecently env p False
           \<and> (hop_start p = 0 \<and> hop_limit p = HOP_RELIABLE env
                \<or> hop_start p \<noteq> 0 \<and> hop_start p = hop_limit p)
           \<and> currentReply s = None
           \<and> to' p \<noteq> nodeDB_getNodeNum env
        then [RouterSend (p\<lparr>hop_limit := hop_limit p - 1\<rparr>)]
        else [])"
    unfolding r [symmetric]
    by (simp add: filter_router_trace filter_implicitAck_trace_RouterSend)
  then show ?thesis
    using filter_router_dom [of env s p] by simp
qed

theorem filter_resend_repeated_witness:
  "wasSeenRecently ex_env ex_repeated False
   \<and> hop_start ex_repeated \<noteq> 0 \<and> hop_start ex_repeated = hop_limit ex_repeated
   \<and> currentReply ex_router_sent = None
   \<and> to' ex_repeated \<noteq> nodeDB_getNodeNum ex_env
   \<and> filter is_RouterSend (trace (filter_router ex_env ex_router_sent ex_repeated)) =
       [RouterSend (ex_repeated\<lparr>hop_limit := 2\<rparr>)]
   \<and> pending (filter_router ex_env ex_router_sent ex_repeated) (GlobalPacketId 5 12) = None"
proof -
  have h: "wasSeenRecently ex_env ex_repeated False"
          "hop_start ex_repeated \<noteq> 0" "hop_start ex_repeated = hop_limit ex_repeated"
          "to' ex_repeated \<noteq> nodeDB_getNodeNum ex_env"
    by (simp_all add: ex_env_def ex_repeated_def)
  have d: "ex_repeated\<lparr>hop_limit := hop_limit ex_repeated - 1\<rparr> = ex_repeated\<lparr>hop_limit := 2\<rparr>"
    by (simp add: ex_repeated_def)
  have n: "GlobalPacketId 5 12 \<notin> dom (pending ex_router_sent)"
    by (simp add: dom_def ex_router_sent_def send_router_pending send_packet_eq
          send_addAirtime_def send_enroll_def startRetransmission_def allocCopy_def Let_def
          ex_env_def ex_router_def ex_packet_def ex_unicast_def)
  note c = filter_resend_repeated [of ex_env ex_router_sent ex_repeated]
  from c h have 1: "filter is_RouterSend (trace (filter_router ex_env ex_router_sent ex_repeated)) =
       [RouterSend (ex_repeated\<lparr>hop_limit := 2\<rparr>)]"
    by (simp add: ex_router_sent_trace ex_router_sent_currentReply d)
  from c n have 2: "pending (filter_router ex_env ex_router_sent ex_repeated) (GlobalPacketId 5 12) = None"
    by blast
  show ?thesis
    using h 1 2 ex_router_sent_currentReply by simp
qed

text \<open>
  The claim as first stated also counts as repeated a packet whose hop start equals its
  hop limit when both are zero. Such a packet, seen recently, without a reply and for
  another node, is not sent again: with the hop start unset, line 80 compares the hop
  limit with the relay budget, which is 3 here.
\<close>

theorem filter_resend_last_hop_counterexample:
  "hop_start ex_last_hop = hop_limit ex_last_hop
   \<and> wasSeenRecently ex_env ex_last_hop False
   \<and> currentReply ex_router = None
   \<and> to' ex_last_hop \<noteq> nodeDB_getNodeNum ex_env
   \<and> filter is_RouterSend (trace (filter_router ex_env ex_router ex_last_hop)) = []
   \<and> trace (filter_router ex_env ex_router ex_last_hop) = [NextHopFilter ex_last_hop]"
  by (simp add: filter_router_trace filter_implicitAck_def isRepeated_def
        ex_env_def ex_router_def ex_last_hop_def ex_repeated_def)

section \<open>Properties of sniffReceived\<close>

lemma sniff_ackNak_pending:
  "pending (sniff_ackNak p c s) =
     (if request_id (decoded p) \<noteq> 0
      then (pending s)(GlobalPacketId (to' p) (request_id (decoded p)) := None)
      else pending s)"
  by (cases c)
     (simp_all add: sniff_ackNak_def ackId_def nakId_def stopRetransmission_def
        stopRetransmission_key_def)

lemma sniff_ackNak_trace: "trace (sniff_ackNak p c s) = trace s"
  by (simp add: sniff_ackNak_def stopRetransmission_def stopRetransmission_key_def)

lemma sniff_wantAck_pending: "pending (sniff_wantAck env p s) = pending s"
  by (simp add: sniff_wantAck_def emit_def)

lemma sniff_nodeInfo_pending: "pending (sniff_nodeInfo env p c s) = pending s"
  by (simp add: sniff_nodeInfo_def emit_def)

lemma sniffReceived_pending:
  "to' p = getNodeNum env \<Longrightarrow>
   pending (sniffReceived env s p c) =
     (if request_id (decoded p) \<noteq> 0
      then (pending s)(GlobalPacketId (to' p) (request_id (decoded p)) := None)
      else pending s)"
  by (simp add: sniffReceived_def sniff_delegate_def emit_def sniff_ackNak_pending
        sniff_nodeInfo_pending sniff_wantAck_pending)

lemma sniffReceived_trace:
  "to' p = getNodeNum env \<Longrightarrow>
   trace (sniffReceived env s p c) =
     trace (sniff_nodeInfo env p c (sniff_wantAck env p s))
     @ [if to' p = NODENUM_BROADCAST env then FloodSniff p c else NextHopSniff p c]"
  by (simp add: sniffReceived_def sniff_delegate_def emit_def sniff_ackNak_trace)

lemma sniff_nodeInfo_AckNak:
  "filter is_AckNak (trace (sniff_nodeInfo env p c s)) = filter is_AckNak (trace s)"
  by (simp add: sniff_nodeInfo_def emit_def)

lemma sniff_wantAck_OurNodeInfo:
  "filter is_OurNodeInfo (trace (sniff_wantAck env p s)) = filter is_OurNodeInfo (trace s)"
  by (simp add: sniff_wantAck_def emit_def)

lemma sniffReceived_no_request_id:
  "to' p = getNodeNum env \<Longrightarrow> request_id (decoded p) = 0 \<Longrightarrow>
   pending (sniffReceived env s p c) = pending s"
  by (simp add: sniffReceived_pending)

text \<open>
  Claim C2. Let a received packet be addressed to this node and carry a request id (a
  request id of zero is none, see \<open>sniffReceived_no_request_id\<close>). Without routing
  information, or with routing information whose error is no-error, the request id is the
  acknowledged id; with routing information that has an error, it is the
  negatively acknowledged id. These three cases are all there are, and in each the
  table afterwards is the table before with the entry of key (this node, request id)
  removed. When the table has no such entry it is unchanged: stopping an absent
  retransmission is not an error.
\<close>

theorem sniff_cancels_on_ack_or_nak:
  assumes "to' p = getNodeNum env" and "request_id (decoded p) \<noteq> 0"
  shows "(c = None \<or> map_option error_reason c = Some Routing_Error_NONE \<longrightarrow>
            ackId p c = request_id (decoded p))
       \<and> (c \<noteq> None \<and> map_option error_reason c \<noteq> Some Routing_Error_NONE \<longrightarrow>
            ackId p c = 0 \<and> nakId p c = request_id (decoded p))
       \<and> pending (sniffReceived env s p c) =
           (pending s)(GlobalPacketId (getNodeNum env) (request_id (decoded p)) := None)
       \<and> (pending s (GlobalPacketId (getNodeNum env) (request_id (decoded p))) = None \<longrightarrow>
            pending (sniffReceived env s p c) = pending s)"
proof -
  have a: "c = None \<or> map_option error_reason c = Some Routing_Error_NONE \<longrightarrow>
            ackId p c = request_id (decoded p)"
    by (cases c) (simp_all add: ackId_def)
  have n: "c \<noteq> None \<and> map_option error_reason c \<noteq> Some Routing_Error_NONE \<longrightarrow>
            ackId p c = 0 \<and> nakId p c = request_id (decoded p)"
    by (cases c) (simp_all add: ackId_def nakId_def)
  have t: "pending (sniffReceived env s p c) =
           (pending s)(GlobalPacketId (getNodeNum env) (request_id (decoded p)) := None)"
    using assms sniffReceived_pending [of p env s c] by simp
  have "pending s (GlobalPacketId (getNodeNum env) (request_id (decoded p))) = None \<Longrightarrow>
            pending (sniffReceived env s p c) = pending s"
    unfolding t by (rule ext) simp
  with a n t show ?thesis by blast
qed

theorem sniff_cancels_on_ack_or_nak_witness:
  "to' ex_reply = getNodeNum ex_env \<and> request_id (decoded ex_reply) \<noteq> 0
   \<and> pending ex_router_sent (GlobalPacketId 1 7) =
       Some \<lparr>packet = ex_packet\<lparr>hop_limit := 3\<rparr>, nextTxMsec = 1600, numRetransmissions = 3\<rparr>
   \<and> nakId ex_reply (Some ex_nak) = 7
   \<and> pending (sniffReceived ex_env ex_router_sent ex_reply (Some ex_nak)) (GlobalPacketId 1 7) = None
   \<and> pending (sniffReceived ex_env ex_router_sent ex_reply (Some ex_nak)) (GlobalPacketId 1 8) =
       Some \<lparr>packet = ex_unicast\<lparr>hop_limit := 3\<rparr>, nextTxMsec = 1500, numRetransmissions = 3\<rparr>
   \<and> ackId ex_reply None = 7
   \<and> pending ex_router (GlobalPacketId 1 7) = None
   \<and> pending (sniffReceived ex_env ex_router ex_reply None) = pending ex_router"
proof -
  have h: "to' ex_reply = getNodeNum ex_env" "request_id (decoded ex_reply) \<noteq> 0"
    by (simp_all add: ex_reply_def ex_env_def)
  have v: "getNodeNum ex_env = 1" "request_id (decoded ex_reply) = 7"
    by (simp_all add: ex_reply_def ex_env_def)
  have e: "map_option error_reason (Some ex_nak) \<noteq> Some Routing_Error_NONE"
    by (simp add: ex_nak_def)
  have n: "pending ex_router (GlobalPacketId 1 7) = None"
    by (simp add: ex_router_def)
  note c1 = sniff_cancels_on_ack_or_nak [OF h, of "Some ex_nak" ex_router_sent]
  note c2 = sniff_cancels_on_ack_or_nak [OF h, of None ex_router]
  from c1 e have 1: "nakId ex_reply (Some ex_nak) = 7"
    by (simp add: v)
  from c1 have 2: "pending (sniffReceived ex_env ex_router_sent ex_reply (Some ex_nak)) =
                   (pending ex_router_sent)(GlobalPacketId 1 7 := None)"
    by (simp add: v)
  from c2 have 3: "ackId ex_reply None = 7"
    by (simp add: v)
  have 4: "pending (sniffReceived ex_env ex_router ex_reply None) = pending ex_router"
    using c2 n unfolding v by blast
  show ?thesis
    using h 1 3 4 n by (simp add: 2 ex_router_sent_pending)
qed

text \<open>
  Claim C7, as amended. For every received packet addressed to this node that wants an
  acknowledgment, when no module has produced a reply, \<open>sniffReceived\<close> generates exactly
  one acknowledgment, addressed to the logical sender for the packet's id and carrying the
  packet's hop start and hop limit. Its error is no-error when the payload is decoded;
  PKI-unknown-public-key when the payload is encrypted, the channel field of the packet is
  0 and the sender is not in the node database or has an empty public key; and no-channel
  in every other case. The first goes out on the packet's channel, the other two on the
  primary channel index.
\<close>

theorem sniff_want_ack_reply:
  assumes "to' p = getNodeNum env" and "want_ack p" and "currentReply s = None"
  shows "filter is_AckNak (trace (sniffReceived env s p c)) =
           filter is_AckNak (trace s) @
             [AckNak
                (if which_payload_variant p = MeshPacket_decoded_tag then Routing_Error_NONE
                 else if which_payload_variant p = MeshPacket_encrypted_tag \<and> channel p = 0
                         \<and> (getMeshNode env (from' p) = None
                              \<or> map_option (\<lambda>n. public_key_size (user n))
                                   (getMeshNode env (from' p)) = Some 0)
                 then Routing_Error_PKI_UNKNOWN_PUBKEY
                 else Routing_Error_NO_CHANNEL)
                (getFrom env p) (id' p)
                (if which_payload_variant p = MeshPacket_decoded_tag then channel p
                 else getPrimaryIndex env)
                (Some (hop_start p, hop_limit p))]"
proof -
  have u: "(case getMeshNode env (from' p) of None \<Rightarrow> True
            | Some n \<Rightarrow> public_key_size (user n) = 0) =
           (getMeshNode env (from' p) = None
              \<or> map_option (\<lambda>n. public_key_size (user n)) (getMeshNode env (from' p)) = Some 0)"
    by (cases "getMeshNode env (from' p)") simp_all
  show ?thesis
    using assms
    by (simp add: sniffReceived_trace sniff_nodeInfo_AckNak sniff_wantAck_def emit_def u)
qed

theorem sniff_want_ack_reply_witness:
  "to' ex_wants_ack = getNodeNum ex_env \<and> want_ack ex_wants_ack
   \<and> currentReply ex_router = None
   \<and> filter is_AckNak (trace (sniffReceived ex_env ex_router ex_wants_ack None)) =
       [AckNak Routing_Error_NONE 9 60 2 (Some (3, 2))]
   \<and> filter is_AckNak (trace (sniffReceived ex_env ex_router ex_pki_packet None)) =
       [AckNak Routing_Error_PKI_UNKNOWN_PUBKEY 9 60 0 (Some (3, 2))]
   \<and> filter is_AckNak (trace (sniffReceived ex_env ex_router ex_undecodable None)) =
       [AckNak Routing_Error_NO_CHANNEL 9 60 0 (Some (3, 2))]"
proof -
  have r: "currentReply ex_router = None" "trace ex_router = []"
    by (simp_all add: ex_router_def)
  have a: "to' ex_wants_ack = getNodeNum ex_env" "want_ack ex_wants_ack"
    by (simp_all add: ex_wants_ack_def ex_env_def)
  have b: "to' ex_pki_packet = getNodeNum ex_env" "want_ack ex_pki_packet"
    by (simp_all add: ex_pki_packet_def ex_wants_ack_def ex_env_def)
  have d: "to' ex_undecodable = getNodeNum ex_env" "want_ack ex_undecodable"
    by (simp_all add: ex_undecodable_def ex_wants_ack_def ex_env_def)
  from sniff_want_ack_reply [OF a r(1), of None]
  have 1: "filter is_AckNak (trace (sniffReceived ex_env ex_router ex_wants_ack None)) =
       [AckNak Routing_Error_NONE 9 60 2 (Some (3, 2))]"
    by (simp add: r ex_wants_ack_def ex_env_def)
  from sniff_want_ack_reply [OF b r(1), of None]
  have 2: "filter is_AckNak (trace (sniffReceived ex_env ex_router ex_pki_packet None)) =
       [AckNak Routing_Error_PKI_UNKNOWN_PUBKEY 9 60 0 (Some (3, 2))]"
    by (simp add: r ex_pki_packet_def ex_wants_ack_def ex_env_def)
  from sniff_want_ack_reply [OF d r(1), of None]
  have 3: "filter is_AckNak (trace (sniffReceived ex_env ex_router ex_undecodable None)) =
       [AckNak Routing_Error_NO_CHANNEL 9 60 0 (Some (3, 2))]"
    by (simp add: r ex_undecodable_def ex_wants_ack_def ex_env_def)
  show ?thesis
    using a r(1) 1 2 3 by simp
qed

text \<open>
  The claim as first stated asks for the PKI-unknown-public-key error when the encrypted
  packet is on the primary channel. With the primary channel at index 3, an encrypted
  packet on channel 3 from an unknown sender is answered with no-channel, and the one on
  channel 0, which is not the primary channel, with PKI-unknown-public-key: line 113
  compares the channel field with 0, while lines 116 and 120 take the primary channel
  from \<^verbatim>\<open>channels.getPrimaryIndex()\<close>.
\<close>

theorem sniff_want_ack_primary_channel_counterexample:
  "to' ex_on_primary = getNodeNum ex_env_primary
   \<and> want_ack ex_on_primary
   \<and> currentReply ex_router = None
   \<and> which_payload_variant ex_on_primary = MeshPacket_encrypted_tag
   \<and> channel ex_on_primary = getPrimaryIndex ex_env_primary
   \<and> getMeshNode ex_env_primary (from' ex_on_primary) = None
   \<and> filter is_AckNak (trace (sniffReceived ex_env_primary ex_router ex_on_primary None)) =
       [AckNak Routing_Error_NO_CHANNEL 9 60 3 (Some (3, 2))]
   \<and> which_payload_variant ex_pki_packet = MeshPacket_encrypted_tag
   \<and> channel ex_pki_packet \<noteq> getPrimaryIndex ex_env_primary
   \<and> filter is_AckNak (trace (sniffReceived ex_env_primary ex_router ex_pki_packet None)) =
       [AckNak Routing_Error_PKI_UNKNOWN_PUBKEY 9 60 3 (Some (3, 2))]"
  by (simp add: sniffReceived_def sniff_delegate_def sniff_ackNak_def ackId_def nakId_def
        sniff_nodeInfo_def sniff_wantAck_def emit_def
        ex_env_primary_def ex_env_def ex_router_def ex_on_primary_def ex_pki_packet_def
        ex_wants_ack_def)

text \<open>
  Claim C9. A routing packet is a decoded packet that comes with routing information. For
  every such packet addressed to this node whose error is PKI-unknown-public-key, when
  this node's own public key has its 32 bytes, \<open>sniffReceived\<close> sends this node's
  node info to the packet's sender on the packet's channel, once. Nothing is assumed about
  \<open>want_ack\<close> or about a pending reply, so this holds whichever way the acknowledgment
  branch went.
\<close>

theorem sniff_pki_unknown_sends_node_info:
  assumes "to' p = getNodeNum env"
    and "which_payload_variant p = MeshPacket_decoded_tag"
    and "c = Some r" and "error_reason r = Routing_Error_PKI_UNKNOWN_PUBKEY"
    and "owner_public_key_size env = 32"
  shows "filter is_OurNodeInfo (trace (sniffReceived env s p c)) =
           filter is_OurNodeInfo (trace s) @ [OurNodeInfo (from' p) False (channel p) True]"
  using assms
  by (simp add: sniffReceived_trace sniff_nodeInfo_def emit_def sniff_wantAck_OurNodeInfo)

theorem sniff_pki_unknown_sends_node_info_witness:
  "to' ex_reply = getNodeNum ex_env
   \<and> which_payload_variant ex_reply = MeshPacket_decoded_tag
   \<and> error_reason ex_pki_nak = Routing_Error_PKI_UNKNOWN_PUBKEY
   \<and> owner_public_key_size ex_env = 32
   \<and> \<not> want_ack ex_reply
   \<and> filter is_OurNodeInfo (trace (sniffReceived ex_env ex_router ex_reply (Some ex_pki_nak))) =
       [OurNodeInfo 9 False 0 True]
   \<and> want_ack (ex_reply\<lparr>want_ack := True\<rparr>)
   \<and> filter is_OurNodeInfo
       (trace (sniffReceived ex_env ex_router (ex_reply\<lparr>want_ack := True\<rparr>) (Some ex_pki_nak))) =
       [OurNodeInfo 9 False 0 True]"
proof -
  have h: "to' ex_reply = getNodeNum ex_env"
          "which_payload_variant ex_reply = MeshPacket_decoded_tag"
          "error_reason ex_pki_nak = Routing_Error_PKI_UNKNOWN_PUBKEY"
          "owner_public_key_size ex_env = 32"
    by (simp_all add: ex_reply_def ex_env_def ex_pki_nak_def)
  have h': "to' (ex_reply\<lparr>want_ack := True\<rparr>) = getNodeNum ex_env"
           "which_payload_variant (ex_reply\<lparr>want_ack := True\<rparr>) = MeshPacket_decoded_tag"
    using h by simp_all
  have w: "\<not> want_ack ex_reply"
    by (simp add: ex_reply_def)
  have v: "from' ex_reply = 9" "channel ex_reply = 0" "trace ex_router = []"
    by (simp_all add: ex_reply_def ex_router_def)
  from sniff_pki_unknown_sends_node_info [OF h(1) h(2) refl h(3) h(4), of ex_router]
  have 1: "filter is_OurNodeInfo (trace (sniffReceived ex_env ex_router ex_reply (Some ex_pki_nak))) =
       [OurNodeInfo 9 False 0 True]"
    by (simp add: v)
  from sniff_pki_unknown_sends_node_info [OF h'(1) h'(2) refl h(3) h(4), of ex_router]
  have 2: "filter is_OurNodeInfo
       (trace (sniffReceived ex_env ex_router (ex_reply\<lparr>want_ack := True\<rparr>) (Some ex_pki_nak))) =
       [OurNodeInfo 9 False 0 True]"
    by (simp add: v)
  show ?thesis
    using h w 1 2 by simp
qed

end
